theory Spec2Isabelle
  imports Complex_Main "HOL-Library.Word"
begin

unbundle bit_operations_syntax

section \<open>Python values used by the controller\<close>

text \<open>
  The controller of \<^verbatim>\<open>totalmix_volume_controller.py\<close> computes with Python floats.
  A float is modelled as the real number it holds or one of the three non-finite values;
  the sign of zero is not modelled. Comparisons follow IEEE 754: every comparison with
  \<open>NaN\<close> is false. The conversions from strings and integers round to the nearest double
  as \<^verbatim>\<open>float\<close> does. Addition is exact: it is the addition of the code wherever the
  sum of the two doubles is a double again, since IEEE 754 addition is correctly rounded.
  The rounding of a sum that is not a double is outside the model, and a claim that
  depends on it says so in its hypotheses.
\<close>

datatype pyfloat = Fin real | PInf | NInf | NaN

fun py_lt :: "pyfloat \<Rightarrow> pyfloat \<Rightarrow> bool" where
  "py_lt NaN _ = False"
| "py_lt _ NaN = False"
| "py_lt (Fin x) (Fin y) = (x < y)"
| "py_lt (Fin _) PInf = True"
| "py_lt (Fin _) NInf = False"
| "py_lt PInf _ = False"
| "py_lt NInf (Fin _) = True"
| "py_lt NInf PInf = True"
| "py_lt NInf NInf = False"

fun py_neg :: "pyfloat \<Rightarrow> pyfloat" where
  "py_neg (Fin x) = Fin (- x)"
| "py_neg PInf = NInf"
| "py_neg NInf = PInf"
| "py_neg NaN = NaN"

fun py_add :: "pyfloat \<Rightarrow> pyfloat \<Rightarrow> pyfloat" where
  "py_add NaN _ = NaN"
| "py_add _ NaN = NaN"
| "py_add (Fin x) (Fin y) = Fin (x + y)"
| "py_add (Fin _) PInf = PInf"
| "py_add (Fin _) NInf = NInf"
| "py_add PInf NInf = NaN"
| "py_add PInf _ = PInf"
| "py_add NInf PInf = NaN"
| "py_add NInf _ = NInf"

definition py_sub :: "pyfloat \<Rightarrow> pyfloat \<Rightarrow> pyfloat" where
  "py_sub a b = py_add a (py_neg b)"

text \<open>
  The builtins \<^verbatim>\<open>min(a, b)\<close> and \<^verbatim>\<open>max(a, b)\<close> keep the first argument
  unless the second is strictly smaller (strictly larger), so a \<open>NaN\<close> in second place
  is dropped.
\<close>

definition py_min :: "pyfloat \<Rightarrow> pyfloat \<Rightarrow> pyfloat" where
  "py_min a b = (if py_lt b a then b else a)"

definition py_max :: "pyfloat \<Rightarrow> pyfloat \<Rightarrow> pyfloat" where
  "py_max a b = (if py_lt a b then b else a)"

datatype py_error = ValueError | OverflowError | OSError

text \<open>
  The arguments that the OSC dispatcher hands to a handler: a float, an integer or a
  string. A string is the list of its characters when all of them are ASCII; for other
  strings \<^verbatim>\<open>float\<close> consults the Unicode tables of whitespace and of decimal digits,
  which are not modelled, and every statement about a string argument is made for ASCII
  strings only.
\<close>

datatype py_value = PyFloat pyfloat | PyInt int | PyStr string

definition is_ascii :: "string \<Rightarrow> bool" where
  "is_ascii s = list_all (\<lambda>c. (of_char c :: nat) < 128) s"

fun ascii_value :: "py_value \<Rightarrow> bool" where
  "ascii_value (PyStr s) = is_ascii s"
| "ascii_value _ = True"

subsection \<open>Rounding to the nearest double\<close>

text \<open>
  The quotient \<open>p / q\<close> of two integers, \<open>0 \<le> p\<close> and \<open>0 < q\<close>, rounded to the nearest
  integer, ties to the even one.
\<close>

definition round_half_even :: "int \<Rightarrow> int \<Rightarrow> int" where
  "round_half_even p q =
     (let n = p div q; r = p mod q
      in if 2 * r < q then n
         else if q < 2 * r then n + 1
         else if even n then n else n + 1)"

text \<open>The number of bits of a positive integer, as \<^verbatim>\<open>int.bit_length\<close> counts them.\<close>

function bit_length :: "int \<Rightarrow> nat" where
  "bit_length n = (if n \<le> 0 then 0 else Suc (bit_length (n div 2)))"
  by pat_completeness auto
termination
  by (relation "measure nat") auto

declare bit_length.simps [simp del]

text \<open>
  The binary exponent of a positive quotient: the \<open>e\<close> with \<open>2 ^ e \<le> p / q < 2 ^ (e + 1)\<close>.
  The difference of the bit lengths is this exponent or one more.
\<close>

definition binary_exponent :: "int \<Rightarrow> int \<Rightarrow> int" where
  "binary_exponent p q =
     (let d = int (bit_length p) - int (bit_length q)
      in if (if 0 \<le> d then q * 2 ^ nat d \<le> p else q \<le> p * 2 ^ nat (- d)) then d else d - 1)"

text \<open>
  The double nearest to \<open>p / q\<close>, ties to even: 53 significant bits, the exponent of the
  last bit not below \<open>-1074\<close> (the subnormal range). \<open>None\<close> when the rounded value
  reaches \<open>2 ^ 1024\<close>, where a double overflows.
\<close>

definition round_double :: "int \<Rightarrow> int \<Rightarrow> real option" where
  "round_double p q =
     (if p = 0 then Some 0
      else
        (let s = max (binary_exponent p q) (- 1022) - 52;
             n = (if 0 \<le> s then round_half_even p (q * 2 ^ nat s)
                  else round_half_even (p * 2 ^ nat (- s)) q);
             x = (if 0 \<le> s then of_int n * 2 ^ nat s else of_int n / 2 ^ nat (- s))
         in if 2 ^ 1024 \<le> x then None else Some x))"

subsection \<open>The builtin \<^verbatim>\<open>float\<close> on strings\<close>

text \<open>
  \<^verbatim>\<open>float(s)\<close> strips surrounding whitespace (space, tab, line feed, vertical tab,
  form feed, carriage return) and accepts an optional sign followed by \<^verbatim>\<open>inf\<close>,
  \<^verbatim>\<open>infinity\<close> or \<^verbatim>\<open>nan\<close> in any letter case, or by a decimal number: digits with
  single underscores between them, an optional point, an optional exponent. The number
  is rounded to the nearest double, and to infinity beyond the range. Anything else
  raises \<^verbatim>\<open>ValueError\<close>.
\<close>

definition is_space :: "char \<Rightarrow> bool" where
  "is_space c = (c \<in> set [CHR '' '', CHR 0x09, CHR 0x0A, CHR 0x0B, CHR 0x0C, CHR 0x0D])"

definition is_digit :: "char \<Rightarrow> bool" where
  "is_digit c = ((of_char CHR ''0'' :: nat) \<le> of_char c \<and> (of_char c :: nat) \<le> of_char CHR ''9'')"

definition digit_val :: "char \<Rightarrow> int" where
  "digit_val c = of_char c - of_char CHR ''0''"

definition strip :: "string \<Rightarrow> string" where
  "strip s = rev (dropWhile is_space (rev (dropWhile is_space s)))"

definition lower :: "char \<Rightarrow> char" where
  "lower c =
     (if (of_char CHR ''A'' :: nat) \<le> of_char c \<and> (of_char c :: nat) \<le> of_char CHR ''Z''
      then char_of (of_char c + (32::nat)) else c)"

text \<open>The rest of a digit part after its first digit: \<^verbatim>\<open>(["_"] digit)*\<close>.\<close>

fun digits_tail :: "string \<Rightarrow> int list \<times> string" where
  "digits_tail [] = ([], [])"
| "digits_tail [c] = (if is_digit c then ([digit_val c], []) else ([], [c]))"
| "digits_tail (c # d # cs) =
     (if is_digit c then
        (case digits_tail (d # cs) of (ds, r) \<Rightarrow> (digit_val c # ds, r))
      else if c = CHR ''_'' \<and> is_digit d then
        (case digits_tail cs of (ds, r) \<Rightarrow> (digit_val d # ds, r))
      else ([], c # d # cs))"

text \<open>A longest digit part at the front of the string; no digits when there is none.\<close>

fun digitpart :: "string \<Rightarrow> int list \<times> string" where
  "digitpart [] = ([], [])"
| "digitpart (c # cs) =
     (if is_digit c then (case digits_tail cs of (ds, r) \<Rightarrow> (digit_val c # ds, r))
      else ([], c # cs))"

definition digits_value :: "int list \<Rightarrow> int" where
  "digits_value ds = foldl (\<lambda>a d. 10 * a + d) 0 ds"

fun sign_of :: "string \<Rightarrow> bool \<times> string" where
  "sign_of (c # cs) =
     (if c = CHR ''-'' then (True, cs) else if c = CHR ''+'' then (False, cs)
      else (False, c # cs))"
| "sign_of [] = (False, [])"

text \<open>An optional exponent at the end of the number; \<open>None\<close> when what is left is
  not one.\<close>

definition exponent :: "string \<Rightarrow> int option" where
  "exponent s =
     (case s of
        [] \<Rightarrow> Some 0
      | c # cs \<Rightarrow>
          if c = CHR ''e'' \<or> c = CHR ''E'' then
            (case sign_of cs of (neg, r) \<Rightarrow>
               (case digitpart r of (ds, r') \<Rightarrow>
                  if ds \<noteq> [] \<and> r' = [] then
                    Some (if neg then - digits_value ds else digits_value ds)
                  else None))
          else None)"

text \<open>The unsigned decimal number: \<^verbatim>\<open>[digitpart] "." digitpart | digitpart ["."]\<close>,
  then the exponent. The result \<open>(m, e)\<close> stands for \<open>m * 10 ^ e\<close>: all the digits as
  one number, and the exponent less the number of digits after the point.\<close>

definition decimal :: "string \<Rightarrow> (int \<times> int) option" where
  "decimal s =
     (case digitpart s of (ip, r) \<Rightarrow>
        (case r of
           c # r1 \<Rightarrow>
             if c = CHR ''.'' then
               (case digitpart r1 of (fp, r2) \<Rightarrow>
                  if ip = [] \<and> fp = [] then None
                  else map_option (\<lambda>e. (digits_value (ip @ fp), e - int (length fp)))
                         (exponent r2))
             else if ip = [] then None
             else map_option (\<lambda>e. (digits_value ip, e)) (exponent r)
         | [] \<Rightarrow> if ip = [] then None else Some (digits_value ip, 0)))"

text \<open>The double nearest to \<open>m * 10 ^ e\<close>, infinity when it overflows.\<close>

definition double_of_decimal :: "int \<Rightarrow> int \<Rightarrow> real option" where
  "double_of_decimal m e =
     (if 0 \<le> e then round_double (m * 10 ^ nat e) 1 else round_double m (10 ^ nat (- e)))"

definition float_of_string :: "string \<Rightarrow> py_error + pyfloat" where
  "float_of_string s =
     (case sign_of (strip s) of (neg, body) \<Rightarrow>
        if map lower body = ''inf'' \<or> map lower body = ''infinity'' then
          Inr (if neg then NInf else PInf)
        else if map lower body = ''nan'' then Inr NaN
        else
          (case decimal body of
             None \<Rightarrow> Inl ValueError
           | Some (m, e) \<Rightarrow>
               (case double_of_decimal m e of
                  None \<Rightarrow> Inr (if neg then NInf else PInf)
                | Some x \<Rightarrow> Inr (Fin (if neg then - x else x)))))"

text \<open>
  \<^verbatim>\<open>float(i)\<close> on an integer: exact up to 53 bits, rounded to the nearest double
  beyond, and \<^verbatim>\<open>OverflowError\<close> when the rounded value is out of the range of a double.
\<close>

definition float_of_int :: "int \<Rightarrow> py_error + pyfloat" where
  "float_of_int i =
     (if \<bar>i\<bar> \<le> 2 ^ 53 then Inr (Fin (of_int i))
      else
        (case round_double \<bar>i\<bar> 1 of
           None \<Rightarrow> Inl OverflowError
         | Some x \<Rightarrow> Inr (Fin (if i < 0 then - x else x))))"

text \<open>\<^verbatim>\<open>float(x)\<close> on a handler argument.\<close>

fun py_float :: "py_value \<Rightarrow> py_error + pyfloat" where
  "py_float (PyFloat x) = Inr x"
| "py_float (PyInt i) = float_of_int i"
| "py_float (PyStr s) = float_of_string s"

text \<open>\<^verbatim>\<open>str(i)\<close> on an integer, as the f-string \<^verbatim>\<open>f"/1/volume{f}"\<close> formats it.\<close>

fun str_nat :: "nat \<Rightarrow> string" where
  "str_nat n =
     (if n < 10 then [char_of (of_char CHR ''0'' + n)]
      else str_nat (n div 10) @ [char_of (of_char CHR ''0'' + n mod 10)])"

declare str_nat.simps [simp del]

definition str_int :: "int \<Rightarrow> string" where
  "str_int i = (if i < 0 then CHR ''-'' # str_nat (nat (- i)) else str_nat (nat i))"

section \<open>The controller\<close>

text \<open>
  The class \<^verbatim>\<open>TotalMixController\<close>. Its fields are a record; every method takes the
  state and returns the new state together with what it did to the outside world, in
  order. Console output is not part of the model. The methods of a controller that
  exists are modelled on a target that the socket layer accepts, as it did when the
  controller was constructed, so that their sends raise nothing.
\<close>

record controller =
  ip :: string
  port :: int
  receive_port :: int
  step :: pyfloat
  current_volume :: pyfloat
  is_muted :: bool
  running :: bool
  faders :: "int list"
  volume_addresses :: "string list"
  received_feedback :: bool

datatype effect =
    ClientCreated string int
  | ListenerStarted int
  | Sent string pyfloat

definition BUS_OUTPUT :: string where "BUS_OUTPUT = ''/1/busOutput''"
definition VOLUME_1 :: string where "VOLUME_1 = ''/1/volume1''"
definition MASTER_VOLUME :: string where "MASTER_VOLUME = ''/1/mastervolume''"
definition MASTER_MUTE :: string where "MASTER_MUTE = ''/1/mainMute''"
definition MAIN_DIM :: string where "MAIN_DIM = ''/1/mainDim''"

definition UNITY_GAIN :: pyfloat where "UNITY_GAIN = Fin (7197 / 10000)"
definition MIN_VOLUME :: pyfloat where "MIN_VOLUME = Fin 0"
definition MAX_VOLUME :: pyfloat where "MAX_VOLUME = Fin 1"

definition volume_address :: "int \<Rightarrow> string" where
  "volume_address f = ''/1/volume'' @ str_int f"

definition select_output_bus :: "controller \<Rightarrow> controller \<times> effect list" where
  "select_output_bus s = (s, [Sent BUS_OUTPUT (Fin 1)])"

definition default_faders :: "int list" where
  "default_faders = [1, 2, 3, 4, 5, 6]"

text \<open>
  \<^verbatim>\<open>__init__\<close>. The argument \<^verbatim>\<open>faders\<close> is \<open>None\<close> when the caller leaves it out.
  \<^verbatim>\<open>faders if faders else [1, 2, 3, 4, 5, 6]\<close> takes the default for \<open>None\<close> and for the
  empty list alike, both being false in Python. The effects are the creation of the UDP
  client, the start of the listener thread (whose failure to bind is caught and printed
  inside the thread) and the bus-select message. This is the body of \<^verbatim>\<open>__init__\<close> on
  a target that the socket layer accepts; the call as a whole is
  \<open>TotalMixController\<close> below.
\<close>

definition init :: "string \<Rightarrow> int \<Rightarrow> int \<Rightarrow> pyfloat \<Rightarrow> int list option \<Rightarrow> controller \<times> effect list" where
  "init ip_arg port_arg receive_port_arg step_arg faders_arg =
     (let fs = (case faders_arg of
                  None \<Rightarrow> default_faders
                | Some l \<Rightarrow> if l = [] then default_faders else l);
          s = \<lparr> ip = ip_arg, port = port_arg, receive_port = receive_port_arg,
                step = step_arg, current_volume = Fin (1 / 2), is_muted = False,
                running = True, faders = fs, volume_addresses = map volume_address fs,
                received_feedback = False \<rparr>
      in (case select_output_bus s of (s', sent) \<Rightarrow>
            (s', [ClientCreated ip_arg port_arg, ListenerStarted receive_port_arg] @ sent)))"

text \<open>
  The call \<^verbatim>\<open>TotalMixController(ip, port, receive_port, step, faders)\<close>. Creating the
  client and sending bus select go through the socket layer, which is not in the sources
  and which refuses some targets by raising (a host it cannot resolve, a port outside
  0 to 65535). The exception then leaves \<^verbatim>\<open>__init__\<close>, which catches nothing, and no
  controller exists. What the socket layer does with a target is the parameter
  \<open>socket_layer\<close>: \<open>None\<close> when it accepts the target, the exception when it refuses
  it. Nothing else in \<^verbatim>\<open>__init__\<close> raises, and the fader list is never validated.
\<close>

definition TotalMixController ::
  "(string \<Rightarrow> int \<Rightarrow> py_error option) \<Rightarrow> string \<Rightarrow> int \<Rightarrow> int \<Rightarrow> pyfloat \<Rightarrow> int list option
     \<Rightarrow> py_error + controller \<times> effect list" where
  "TotalMixController socket_layer ip_arg port_arg receive_port_arg step_arg faders_arg =
     (case socket_layer ip_arg port_arg of
        Some e \<Rightarrow> Inl e
      | None \<Rightarrow> Inr (init ip_arg port_arg receive_port_arg step_arg faders_arg))"

text \<open>
  \<^verbatim>\<open>_handle_osc_feedback(address, *args)\<close>. The flag is set before the address is
  looked at. \<^verbatim>\<open>float(args[0])\<close> may raise; the exception leaves the handler with the
  state as it is at that point, which is the first component of the result.
\<close>

definition handle_osc_feedback ::
  "controller \<Rightarrow> string \<Rightarrow> py_value list \<Rightarrow> controller \<times> py_error option" where
  "handle_osc_feedback s address args =
     (let s1 = (if \<not> received_feedback s then s\<lparr>received_feedback := True\<rparr> else s)
      in if address \<in> set (volume_addresses s1) \<and> args \<noteq> [] then
           (case py_float (hd args) of
              Inl e \<Rightarrow> (s1, Some e)
            | Inr x \<Rightarrow> (s1\<lparr>current_volume := x\<rparr>, None))
         else (s1, None))"

text \<open>\<^verbatim>\<open>set_volume(value)\<close>: clamp, store, then one bus-select message, one message
  per fader address and one master-volume message.\<close>

definition set_volume :: "pyfloat \<Rightarrow> controller \<Rightarrow> controller \<times> effect list" where
  "set_volume value s =
     (let v = py_max MIN_VOLUME (py_min MAX_VOLUME value)
      in (s\<lparr>current_volume := v\<rparr>,
          [Sent BUS_OUTPUT (Fin 1)]
          @ map (\<lambda>addr. Sent addr v) (volume_addresses s)
          @ [Sent MASTER_VOLUME v]))"

definition volume_up :: "controller \<Rightarrow> controller \<times> effect list" where
  "volume_up s = set_volume (py_add (current_volume s) (step s)) s"

definition volume_down :: "controller \<Rightarrow> controller \<times> effect list" where
  "volume_down s = set_volume (py_sub (current_volume s) (step s)) s"

definition toggle_mute :: "controller \<Rightarrow> controller \<times> effect list" where
  "toggle_mute s =
     (let s1 = s\<lparr>is_muted := \<not> is_muted s\<rparr>
      in (s1, [Sent MASTER_MUTE (if is_muted s1 then Fin 1 else Fin 0)]))"

definition set_unity_gain :: "controller \<Rightarrow> controller \<times> effect list" where
  "set_unity_gain s = set_volume UNITY_GAIN s"

definition stop :: "controller \<Rightarrow> controller" where
  "stop s = s\<lparr>running := False\<rparr>"

subsection \<open>Sequences of operations\<close>

text \<open>
  The hotkeys and the listener call the methods one after the other. An exception in the
  feedback handler is caught by the server loop, which goes on serving, so the state the
  handler left behind is the state the next call sees.
\<close>

datatype operation =
    SetVolume pyfloat
  | VolumeUp
  | VolumeDown
  | ToggleMute
  | SetUnityGain
  | OnFeedback string "py_value list"
  | Stop

fun apply_operation :: "controller \<Rightarrow> operation \<Rightarrow> controller" where
  "apply_operation s (SetVolume v) = fst (set_volume v s)"
| "apply_operation s VolumeUp = fst (volume_up s)"
| "apply_operation s VolumeDown = fst (volume_down s)"
| "apply_operation s ToggleMute = fst (toggle_mute s)"
| "apply_operation s SetUnityGain = fst (set_unity_gain s)"
| "apply_operation s (OnFeedback address args) = fst (handle_osc_feedback s address args)"
| "apply_operation s Stop = stop s"

definition run :: "controller \<Rightarrow> operation list \<Rightarrow> controller" where
  "run s ops = foldl apply_operation s ops"

text \<open>The level is a number between 0 and 1.\<close>

fun in_unit :: "pyfloat \<Rightarrow> bool" where
  "in_unit (Fin x) = (0 \<le> x \<and> x \<le> 1)"
| "in_unit _ = False"

text \<open>
  A feedback call that cannot take the level out of range: one that is ignored, or one
  whose first argument is a float, an integer or an ASCII string on which
  \<^verbatim>\<open>float\<close> raises or gives a number between 0 and 1.
\<close>

definition feedback_in_range :: "string list \<Rightarrow> operation \<Rightarrow> bool" where
  "feedback_in_range addrs op =
     (case op of
        OnFeedback address args \<Rightarrow>
          if address \<in> set addrs \<and> args \<noteq> [] then
            ascii_value (hd args)
            \<and> (case py_float (hd args) of Inl _ \<Rightarrow> True | Inr x \<Rightarrow> in_unit x)
          else True
      | _ \<Rightarrow> True)"


section \<open>The message codec\<close>

text \<open>
  The controller hands its messages to the \<^verbatim>\<open>pythonosc\<close> client, which is not part
  of the repository's sources. The wire format is therefore taken from section 4.1 and
  section 6 of the specification. The one datagram written out in the sources, the probe
  \<^verbatim>\<open>b'/ping\x00\x00\x00,\x00\x00\x00'\<close> of \<^verbatim>\<open>test_connectivity.py\<close>, has this layout.
\<close>

type_synonym byte = "8 word"

text \<open>Modelled from the spec: the typed values of a \<^verbatim>\<open>ControlMessage\<close>, whose codec is
  missing from the sources. A 32-bit float is its IEEE 754 bit pattern, a 32-bit integer
  its two's complement word.\<close>

datatype osc_arg = OscFloat "32 word" | OscInt "32 word" | OscStr string

text \<open>Modelled from the spec: the \<^verbatim>\<open>ControlMessage\<close> of section 3, an address and an
  ordered sequence of arguments.\<close>

record control_message =
  address :: string
  arguments :: "osc_arg list"

text \<open>Modelled from the spec: the error \<^verbatim>\<open>MalformedMessage\<close> of the missing decoder.\<close>

datatype codec_error = MalformedMessage

text \<open>Modelled from the spec: the bytes of a string, one byte per character.\<close>

definition byte_of_char :: "char \<Rightarrow> byte" where
  "byte_of_char c = of_char c"

definition char_of_byte :: "byte \<Rightarrow> char" where
  "char_of_byte b = char_of (unat b)"

text \<open>Modelled from the spec: a string of the missing encoder, ``NUL-terminated and padded
  with NUL bytes to the next 4-byte boundary''.\<close>

definition pad_string :: "string \<Rightarrow> byte list" where
  "pad_string s = map byte_of_char s @ replicate (4 - length s mod 4) 0"

text \<open>Modelled from the spec: a numeric argument of the missing encoder, ``big-endian binary
  form (4 bytes for numeric types)'', and its inverse.\<close>

definition be32 :: "32 word \<Rightarrow> byte list" where
  "be32 w = [ucast (drop_bit 24 w), ucast (drop_bit 16 w), ucast (drop_bit 8 w), ucast w]"

definition word_of_be32 :: "byte \<Rightarrow> byte \<Rightarrow> byte \<Rightarrow> byte \<Rightarrow> 32 word" where
  "word_of_be32 a b c d =
     push_bit 24 (ucast a) OR push_bit 16 (ucast b) OR push_bit 8 (ucast c) OR ucast d"

text \<open>Modelled from the spec: the tag character of an argument in the type-tag string of
  the missing encoder.\<close>

fun type_tag :: "osc_arg \<Rightarrow> char" where
  "type_tag (OscFloat _) = CHR ''f''"
| "type_tag (OscInt _) = CHR ''i''"
| "type_tag (OscStr _) = CHR ''s''"

fun encode_arg :: "osc_arg \<Rightarrow> byte list" where
  "encode_arg (OscFloat w) = be32 w"
| "encode_arg (OscInt w) = be32 w"
| "encode_arg (OscStr s) = pad_string s"

text \<open>Modelled from the spec: \<^verbatim>\<open>encode\<close>, missing from the sources: the padded address,
  the padded type-tag string that begins with the marker character, then each argument.\<close>

definition encode :: "control_message \<Rightarrow> byte list" where
  "encode m =
     pad_string (address m)
     @ pad_string (CHR '','' # map type_tag (arguments m))
     @ concat (map encode_arg (arguments m))"

text \<open>Modelled from the spec: reading one padded string in the missing decoder. It fails
  when no NUL ends the string within the buffer and when the padding runs past the end
  of the buffer.\<close>

definition read_string :: "byte list \<Rightarrow> (string \<times> byte list) option" where
  "read_string bs =
     (let s = takeWhile (\<lambda>b. b \<noteq> 0) bs;
          n = length s;
          padded = n + (4 - n mod 4)
      in if length bs \<le> n then None
         else if length bs < padded then None
         else Some (map char_of_byte s, drop padded bs))"

text \<open>Modelled from the spec: reading the arguments that the type tags declare in the
  missing decoder. It fails on an unknown tag and when the buffer is shorter than the
  declared arguments.\<close>

fun decode_args :: "string \<Rightarrow> byte list \<Rightarrow> osc_arg list option" where
  "decode_args [] bs = Some []"
| "decode_args (t # ts) bs =
     (if t = CHR ''f'' \<or> t = CHR ''i'' then
        (case bs of
           a # b # c # d # r \<Rightarrow>
             map_option
               ((#) (if t = CHR ''f'' then OscFloat (word_of_be32 a b c d)
                     else OscInt (word_of_be32 a b c d)))
               (decode_args ts r)
         | _ \<Rightarrow> None)
      else if t = CHR ''s'' then
        (case read_string bs of
           None \<Rightarrow> None
         | Some (s, r) \<Rightarrow> map_option ((#) (OscStr s)) (decode_args ts r))
      else None)"

text \<open>Modelled from the spec: \<^verbatim>\<open>decode\<close>, missing from the sources: the address, the
  type-tag string with its marker, the arguments; \<^verbatim>\<open>MalformedMessage\<close> otherwise.\<close>

definition decode :: "byte list \<Rightarrow> codec_error + control_message" where
  "decode bs =
     (case read_string bs of
        None \<Rightarrow> Inl MalformedMessage
      | Some (addr, r) \<Rightarrow>
          (case read_string r of
             None \<Rightarrow> Inl MalformedMessage
           | Some (tags, r') \<Rightarrow>
               (case tags of
                  [] \<Rightarrow> Inl MalformedMessage
                | c # ts \<Rightarrow>
                    if c = CHR '','' then
                      (case decode_args ts r' of
                         None \<Rightarrow> Inl MalformedMessage
                       | Some args \<Rightarrow> Inr \<lparr>address = addr, arguments = args\<rparr>)
                    else Inl MalformedMessage)))"

text \<open>Modelled from the spec: a valid message. A string that is sent NUL-terminated holds
  no NUL character itself.\<close>

definition valid_string :: "string \<Rightarrow> bool" where
  "valid_string s = (CHR 0x00 \<notin> set s)"

fun valid_arg :: "osc_arg \<Rightarrow> bool" where
  "valid_arg (OscStr s) = valid_string s"
| "valid_arg _ = True"

definition valid_message :: "control_message \<Rightarrow> bool" where
  "valid_message m = (valid_string (address m) \<and> list_all valid_arg (arguments m))"

section \<open>Conversions on concrete inputs\<close>

lemmas float_eval =
  float_of_string_def strip_def is_space_def sign_of.simps lower_def decimal_def
  digitpart.simps digits_tail.simps is_digit_def digit_val_def digits_value_def exponent_def
  double_of_decimal_def round_double_def binary_exponent_def bit_length.simps
  round_half_even_def Let_def float_of_int_def

lemma float_of_string_half: "float_of_string ''0.5'' = Inr (Fin (1 / 2))"
  by (simp add: float_eval)

lemma float_of_string_quarter: "float_of_string ''0.25'' = Inr (Fin (1 / 4))"
  by (simp add: float_eval)

lemma float_of_string_third:
  "float_of_string ''0.33'' = Inr (Fin (5944751508129055 / 18014398509481984))"
  by (simp add: float_eval)

lemma float_of_int_rounds: "float_of_int 9007199254740993 = Inr (Fin 9007199254740992)"
  by (simp add: float_eval)

lemma float_of_int_exact: "\<bar>i\<bar> \<le> 2 ^ 53 \<Longrightarrow> float_of_int i = Inr (Fin (of_int i))"
  by (simp add: float_of_int_def)

lemma float_of_string_loud: "float_of_string ''loud'' = Inl ValueError"
  by (simp add: float_eval)

lemma float_of_string_separator: "float_of_string (CHR 0x1C # ''0.33'') = Inl ValueError"
  by (simp add: float_eval)

lemma volume_address_1: "volume_address 1 = ''/1/volume1''"
  by code_simp

lemma volume_address_2: "volume_address 2 = ''/1/volume2''"
  by code_simp

lemma volume_addresses_init_1_2:
  "volume_addresses (fst (init i p r d (Some [1, 2]))) = [''/1/volume1'', ''/1/volume2'']"
  by (simp add: init_def select_output_bus_def volume_address_1 volume_address_2)

lemma handle_osc_feedback_converts:
  "a \<in> set (volume_addresses s) \<Longrightarrow> py_float v = Inr y
   \<Longrightarrow> handle_osc_feedback s a (v # rest)
         = (s\<lparr>received_feedback := True, current_volume := y\<rparr>, None)"
  by (simp add: handle_osc_feedback_def Let_def)

lemma handle_osc_feedback_raises:
  "a \<in> set (volume_addresses s) \<Longrightarrow> py_float v = Inl e
   \<Longrightarrow> handle_osc_feedback s a (v # rest) = (s\<lparr>received_feedback := True\<rparr>, Some e)"
  by (simp add: handle_osc_feedback_def Let_def)

lemma init_empty_faders: "init i p r d (Some []) = init i p r d None"
  by (simp add: init_def)

section \<open>Clamping\<close>

lemma clamp_Fin: "py_max MIN_VOLUME (py_min MAX_VOLUME (Fin v)) = Fin (max 0 (min 1 v))"
  by (simp add: py_max_def py_min_def MIN_VOLUME_def MAX_VOLUME_def max_def min_def)

lemma clamp_in_unit: "in_unit (py_max MIN_VOLUME (py_min MAX_VOLUME v))"
  by (cases v) (simp_all add: py_max_def py_min_def MIN_VOLUME_def MAX_VOLUME_def)

lemma set_volume_level:
  "current_volume (fst (set_volume v s)) = py_max MIN_VOLUME (py_min MAX_VOLUME v)"
  by (simp add: set_volume_def Let_def)

text \<open>
  C2. For every number \<open>v\<close>, below 0 and above 1 included, \<^verbatim>\<open>set_volume(v)\<close> leaves
  \<open>current_volume\<close> equal to \<open>v\<close> clamped into the interval from 0 to 1; the value 1.5
  gives 1.0. The infinities are clamped to the nearer bound, and whatever float comes in,
  \<open>NaN\<close> included, the level that is stored lies between 0 and 1.
\<close>

theorem set_volume_clamps:
  "current_volume (fst (set_volume (Fin v) s)) = Fin (max 0 (min 1 v))
   \<and> current_volume (fst (set_volume (Fin (3 / 2)) s)) = Fin 1
   \<and> current_volume (fst (set_volume PInf s)) = Fin 1
   \<and> current_volume (fst (set_volume NInf s)) = Fin 0
   \<and> in_unit (current_volume (fst (set_volume w s)))"
  by (simp add: set_volume_level clamp_Fin clamp_in_unit)
     (simp add: py_max_def py_min_def MIN_VOLUME_def MAX_VOLUME_def)

section \<open>The level invariant\<close>

lemma apply_operation_addresses:
  "volume_addresses (apply_operation s op) = volume_addresses s"
  by (cases op)
     (simp_all add: set_volume_def volume_up_def volume_down_def toggle_mute_def
        set_unity_gain_def stop_def handle_osc_feedback_def Let_def split: sum.splits)

lemma apply_operation_in_unit:
  assumes "in_unit (current_volume s)" and "feedback_in_range (volume_addresses s) op"
  shows "in_unit (current_volume (apply_operation s op))"
proof (cases op)
  case (OnFeedback a args)
  with assms show ?thesis
    by (auto simp: handle_osc_feedback_def feedback_in_range_def Let_def split: sum.splits)
qed (simp_all add: assms volume_up_def volume_down_def set_unity_gain_def set_volume_level
       clamp_in_unit toggle_mute_def stop_def)

lemma run_in_unit:
  "in_unit (current_volume s) \<Longrightarrow> list_all (feedback_in_range (volume_addresses s)) ops
   \<Longrightarrow> in_unit (current_volume (run s ops))"
  unfolding run_def
proof (induction ops arbitrary: s)
  case Nil
  then show ?case by simp
next
  case (Cons op ops)
  then show ?case
    by (simp add: apply_operation_in_unit apply_operation_addresses)
qed

lemma init_in_unit: "in_unit (current_volume (fst (init i p r d fs)))"
  by (simp add: init_def select_output_bus_def Let_def)

text \<open>
  C1, amended. From the state that the constructor builds, \<open>current_volume\<close> stays between
  0 and 1 along every sequence of \<^verbatim>\<open>set_volume\<close>, \<^verbatim>\<open>volume_up\<close>, \<^verbatim>\<open>volume_down\<close>,
  \<^verbatim>\<open>toggle_mute\<close>, \<^verbatim>\<open>set_unity_gain\<close>, \<^verbatim>\<open>stop\<close> and feedback calls, provided the
  first argument of every feedback call for a fader address is a float, an integer or an
  ASCII string on which \<^verbatim>\<open>float\<close> raises or gives a number that is itself between 0
  and 1. The handler stores the value as it comes and does not clamp it.
\<close>

theorem level_invariant:
  "list_all (feedback_in_range (volume_addresses (fst (init i p r d fs)))) ops
   \<Longrightarrow> in_unit (current_volume (run (fst (init i p r d fs)) ops))"
  by (rule run_in_unit [OF init_in_unit])

text \<open>An instance of C1 as amended: local operations mixed with feedback in range (a
  float, a string, an integer), with feedback that does not convert and with feedback for
  another address.\<close>

theorem level_invariant_witness:
  "list_all (feedback_in_range
       (volume_addresses (fst (init ''192.168.1.100'' 7001 9001 (Fin (2 / 100)) (Some [1, 2])))))
     [VolumeUp, OnFeedback ''/1/volume1'' [PyFloat (Fin (33 / 100))], SetVolume (Fin 7),
      OnFeedback ''/1/volume2'' [PyStr ''loud''], VolumeDown, ToggleMute,
      OnFeedback ''/1/volume2'' [PyStr ''0.25''], OnFeedback ''/1/volume1'' [PyInt 1],
      OnFeedback ''/1/volume9'' [PyFloat (Fin 5)], SetUnityGain]
   \<and> in_unit (current_volume
       (run (fst (init ''192.168.1.100'' 7001 9001 (Fin (2 / 100)) (Some [1, 2])))
         [VolumeUp, OnFeedback ''/1/volume1'' [PyFloat (Fin (33 / 100))], SetVolume (Fin 7),
          OnFeedback ''/1/volume2'' [PyStr ''loud''], VolumeDown, ToggleMute,
          OnFeedback ''/1/volume2'' [PyStr ''0.25''], OnFeedback ''/1/volume1'' [PyInt 1],
          OnFeedback ''/1/volume9'' [PyFloat (Fin 5)], SetUnityGain]))"
proof -
  have h: "list_all (feedback_in_range
       (volume_addresses (fst (init ''192.168.1.100'' 7001 9001 (Fin (2 / 100)) (Some [1, 2])))))
     [VolumeUp, OnFeedback ''/1/volume1'' [PyFloat (Fin (33 / 100))], SetVolume (Fin 7),
      OnFeedback ''/1/volume2'' [PyStr ''loud''], VolumeDown, ToggleMute,
      OnFeedback ''/1/volume2'' [PyStr ''0.25''], OnFeedback ''/1/volume1'' [PyInt 1],
      OnFeedback ''/1/volume9'' [PyFloat (Fin 5)], SetUnityGain]"
    by (simp add: volume_addresses_init_1_2 feedback_in_range_def is_ascii_def
          float_of_string_loud float_of_string_quarter float_of_int_exact)
  from h level_invariant [OF h] show ?thesis
    by (rule conjI)
qed

text \<open>
  C1 as stated fails: from the initial state with the default faders, the feedback
  \<^verbatim>\<open>/1/volume1\<close> with the argument 1.5 leaves \<open>current_volume\<close> at 1.5.
\<close>

theorem level_invariant_counterexample:
  "\<not> in_unit (current_volume
      (run (fst (init ''192.168.1.100'' 7001 9001 (Fin (2 / 100)) None))
           [OnFeedback ''/1/volume1'' [PyFloat (Fin (3 / 2))]]))"
  by code_simp

section \<open>Feedback\<close>

text \<open>
  C3. In a state whose fader addresses are those of its fader list, a feedback call for
  the address of one of these faders with at least one argument leaves \<open>current_volume\<close>
  equal to the numeric value of the first argument, whatever the level was, also right
  after a local \<^verbatim>\<open>set_volume\<close>, and raises nothing. The numeric value is the float
  itself, the integer (exactly up to 53 bits, rounded to the nearest double beyond: the
  integer \<open>2 ^ 53 + 1\<close> gives \<open>2 ^ 53\<close>), or the double nearest to the number that an
  ASCII string spells (\<^verbatim>\<open>0.25\<close> gives a quarter, \<^verbatim>\<open>0.33\<close> the double next to 0.33).
\<close>

theorem feedback_overwrites_level:
  assumes "volume_addresses s = map volume_address (faders s)"
    and "f \<in> set (faders s)"
  shows "handle_osc_feedback s (volume_address f) (PyFloat x # rest)
           = (s\<lparr>received_feedback := True, current_volume := x\<rparr>, None)
         \<and> (\<bar>i\<bar> \<le> 2 ^ 53 \<longrightarrow>
              handle_osc_feedback s (volume_address f) (PyInt i # rest)
                = (s\<lparr>received_feedback := True, current_volume := Fin (of_int i)\<rparr>, None))
         \<and> handle_osc_feedback s (volume_address f) (PyInt 9007199254740993 # rest)
              = (s\<lparr>received_feedback := True, current_volume := Fin 9007199254740992\<rparr>, None)
         \<and> handle_osc_feedback s (volume_address f) (PyStr ''0.25'' # rest)
              = (s\<lparr>received_feedback := True, current_volume := Fin (1 / 4)\<rparr>, None)
         \<and> handle_osc_feedback s (volume_address f) (PyStr ''0.33'' # rest)
              = (s\<lparr>received_feedback := True,
                   current_volume := Fin (5944751508129055 / 18014398509481984)\<rparr>, None)
         \<and> (ascii_value a \<and> py_float a = Inr y \<longrightarrow>
              handle_osc_feedback s (volume_address f) (a # rest)
                = (s\<lparr>received_feedback := True, current_volume := y\<rparr>, None))
         \<and> current_volume
             (fst (handle_osc_feedback (fst (set_volume v s)) (volume_address f)
                    (PyFloat x # rest))) = x"
proof -
  from assms have m: "volume_address f \<in> set (volume_addresses s)"
    by simp
  have m': "volume_address f \<in> set (volume_addresses (fst (set_volume v s)))"
    using m by (simp add: set_volume_def Let_def)
  show ?thesis
    by (simp add: handle_osc_feedback_converts [OF m] handle_osc_feedback_converts [OF m']
          float_of_int_exact float_of_int_rounds float_of_string_quarter float_of_string_third)
qed

text \<open>An instance of C3: faders 1 and 2 and feedback for fader 2, with the float 0.33,
  the integer 1 and the string \<^verbatim>\<open>0.5\<close>.\<close>

theorem feedback_overwrites_level_witness:
  "volume_addresses (fst (init ''192.168.1.100'' 7001 9001 (Fin (2 / 100)) (Some [1, 2])))
     = map volume_address
         (faders (fst (init ''192.168.1.100'' 7001 9001 (Fin (2 / 100)) (Some [1, 2]))))
   \<and> 2 \<in> set (faders (fst (init ''192.168.1.100'' 7001 9001 (Fin (2 / 100)) (Some [1, 2]))))
   \<and> \<bar>1 :: int\<bar> \<le> 2 ^ 53
   \<and> ascii_value (PyStr ''0.5'') \<and> py_float (PyStr ''0.5'') = Inr (Fin (1 / 2))
   \<and> current_volume
        (fst (handle_osc_feedback
               (fst (init ''192.168.1.100'' 7001 9001 (Fin (2 / 100)) (Some [1, 2])))
               (volume_address 2) [PyFloat (Fin (33 / 100))])) = Fin (33 / 100)
   \<and> current_volume
        (fst (handle_osc_feedback
               (fst (init ''192.168.1.100'' 7001 9001 (Fin (2 / 100)) (Some [1, 2])))
               (volume_address 2) [PyInt 1])) = Fin 1
   \<and> current_volume
        (fst (handle_osc_feedback
               (fst (init ''192.168.1.100'' 7001 9001 (Fin (2 / 100)) (Some [1, 2])))
               (volume_address 2) [PyStr ''0.5''])) = Fin (1 / 2)"
proof -
  let ?s = "fst (init ''192.168.1.100'' 7001 9001 (Fin (2 / 100)) (Some [1, 2]))"
  have h1: "volume_addresses ?s = map volume_address (faders ?s)"
    by (simp add: init_def select_output_bus_def)
  have h2: "2 \<in> set (faders ?s)"
    by (simp add: init_def select_output_bus_def)
  have h3: "\<bar>1 :: int\<bar> \<le> 2 ^ 53"
    by simp
  have h4: "ascii_value (PyStr ''0.5'')"
    by (simp add: is_ascii_def)
  have h5: "py_float (PyStr ''0.5'') = Inr (Fin (1 / 2))"
    by (simp add: float_of_string_half)
  from feedback_overwrites_level
         [OF h1 h2, of "Fin (33 / 100)" "[]" 1 "PyStr ''0.5''" "Fin (1 / 2)" "Fin 0"]
       h1 h2 h3 h4 h5
  show ?thesis
    by simp
qed

text \<open>
  C6, amended. A feedback call whose address is not a fader address raises nothing and
  changes no field other than \<open>received_feedback\<close>, which it sets: the level, the mute
  flag and the rest keep their values.
\<close>

theorem feedback_filter:
  assumes "a \<notin> set (volume_addresses s)"
  shows "handle_osc_feedback s a args = (s\<lparr>received_feedback := True\<rparr>, None)"
  using assms by (simp add: handle_osc_feedback_def Let_def)

text \<open>An instance of C6 as amended: faders 1 and 2, feedback for fader 9.\<close>

theorem feedback_filter_witness:
  "''/1/volume9''
     \<notin> set (volume_addresses (fst (init ''192.168.1.100'' 7001 9001 (Fin (2 / 100)) (Some [1, 2]))))
   \<and> handle_osc_feedback (fst (init ''192.168.1.100'' 7001 9001 (Fin (2 / 100)) (Some [1, 2])))
        ''/1/volume9'' [PyFloat (Fin (1 / 10))]
       = ((fst (init ''192.168.1.100'' 7001 9001 (Fin (2 / 100)) (Some [1, 2])))
            \<lparr>received_feedback := True\<rparr>, None)"
proof -
  have h: "''/1/volume9''
     \<notin> set (volume_addresses (fst (init ''192.168.1.100'' 7001 9001 (Fin (2 / 100)) (Some [1, 2]))))"
    by code_simp
  from h feedback_filter [OF h] show ?thesis
    by (rule conjI)
qed

text \<open>
  C6 as stated fails: in the initial state for the faders 1 and 2, the feedback
  \<^verbatim>\<open>/1/volume9\<close> with the argument 0.1 changes the state, since \<open>received_feedback\<close>
  goes from false to true.
\<close>

theorem feedback_filter_counterexample:
  "fst (handle_osc_feedback (fst (init ''192.168.1.100'' 7001 9001 (Fin (2 / 100)) (Some [1, 2])))
         ''/1/volume9'' [PyFloat (Fin (1 / 10))])
     \<noteq> fst (init ''192.168.1.100'' 7001 9001 (Fin (2 / 100)) (Some [1, 2]))
   \<and> received_feedback
       (fst (handle_osc_feedback (fst (init ''192.168.1.100'' 7001 9001 (Fin (2 / 100)) (Some [1, 2])))
         ''/1/volume9'' [PyFloat (Fin (1 / 10))]))
     \<noteq> received_feedback (fst (init ''192.168.1.100'' 7001 9001 (Fin (2 / 100)) (Some [1, 2])))"
  by (simp add: handle_osc_feedback_def init_def select_output_bus_def Let_def
        volume_address_def str_int_def str_nat.simps char_of_def)

text \<open>
  C10. A feedback call for a fader address whose first argument is an ASCII string that
  \<^verbatim>\<open>float\<close> does not accept raises \<^verbatim>\<open>ValueError\<close>. The message is not ignored: the
  handler has set \<open>received_feedback\<close> by then, and the level is as before. The strings
  \<^verbatim>\<open>loud\<close> and \<^verbatim>\<open>0.33\<close> behind the control character \<open>0x1C\<close>, which \<^verbatim>\<open>float\<close>
  does not strip, are two such strings.
\<close>

theorem feedback_string_raises:
  assumes "a \<in> set (volume_addresses s)"
  shows "(is_ascii str \<and> float_of_string str = Inl ValueError \<longrightarrow>
            handle_osc_feedback s a (PyStr str # rest)
              = (s\<lparr>received_feedback := True\<rparr>, Some ValueError))
         \<and> handle_osc_feedback s a (PyStr ''loud'' # rest)
              = (s\<lparr>received_feedback := True\<rparr>, Some ValueError)
         \<and> handle_osc_feedback s a (PyStr (CHR 0x1C # ''0.33'') # rest)
              = (s\<lparr>received_feedback := True\<rparr>, Some ValueError)"
  by (simp add: handle_osc_feedback_raises [OF assms] float_of_string_loud
        float_of_string_separator)

text \<open>An instance of C10: faders 1 and 2, the string \<^verbatim>\<open>1.5.0\<close> for fader 1.\<close>

theorem feedback_string_raises_witness:
  "''/1/volume1''
     \<in> set (volume_addresses (fst (init ''192.168.1.100'' 7001 9001 (Fin (2 / 100)) (Some [1, 2]))))
   \<and> is_ascii ''1.5.0'' \<and> float_of_string ''1.5.0'' = Inl ValueError
   \<and> handle_osc_feedback (fst (init ''192.168.1.100'' 7001 9001 (Fin (2 / 100)) (Some [1, 2])))
        ''/1/volume1'' [PyStr ''1.5.0'']
       = ((fst (init ''192.168.1.100'' 7001 9001 (Fin (2 / 100)) (Some [1, 2])))
            \<lparr>received_feedback := True\<rparr>, Some ValueError)
   \<and> handle_osc_feedback (fst (init ''192.168.1.100'' 7001 9001 (Fin (2 / 100)) (Some [1, 2])))
        ''/1/volume1'' [PyStr ''loud'']
       = ((fst (init ''192.168.1.100'' 7001 9001 (Fin (2 / 100)) (Some [1, 2])))
            \<lparr>received_feedback := True\<rparr>, Some ValueError)"
proof -
  have h1: "''/1/volume1''
     \<in> set (volume_addresses (fst (init ''192.168.1.100'' 7001 9001 (Fin (2 / 100)) (Some [1, 2]))))"
    by (simp add: volume_addresses_init_1_2)
  have h2: "is_ascii ''1.5.0''"
    by (simp add: is_ascii_def)
  have h3: "float_of_string ''1.5.0'' = Inl ValueError"
    by (simp add: float_eval)
  from h1 h2 h3 feedback_string_raises [OF h1, of "''1.5.0''" "[]"] show ?thesis
    by simp
qed

section \<open>Steps\<close>




text \<open>
  C5. With the faders 1 and 2, the step 0.02 and the initial level 0.5, one
  \<^verbatim>\<open>volume_up\<close> sets \<open>current_volume\<close> to 0.52 and sends four messages: bus select,
  fader 1, fader 2, master volume. In every state \<^verbatim>\<open>set_volume\<close> sends the bus-select
  message first, and one message per fader address plus two in all.
\<close>

theorem volume_up_scenario:
  "volume_up (fst (init ''192.168.1.100'' 7001 9001 (Fin (2 / 100)) (Some [1, 2])))
     = ((fst (init ''192.168.1.100'' 7001 9001 (Fin (2 / 100)) (Some [1, 2])))
           \<lparr>current_volume := Fin (52 / 100)\<rparr>,
        [Sent ''/1/busOutput'' (Fin 1), Sent ''/1/volume1'' (Fin (52 / 100)),
         Sent ''/1/volume2'' (Fin (52 / 100)), Sent ''/1/mastervolume'' (Fin (52 / 100))])
   \<and> current_volume (fst (init ''192.168.1.100'' 7001 9001 (Fin (2 / 100)) (Some [1, 2])))
       = Fin (1 / 2)
   \<and> hd (snd (set_volume v s)) = Sent BUS_OUTPUT (Fin 1)
   \<and> length (snd (set_volume v s)) = length (volume_addresses s) + 2"
proof -
  have a: "volume_up (fst (init ''192.168.1.100'' 7001 9001 (Fin (2 / 100)) (Some [1, 2])))
     = ((fst (init ''192.168.1.100'' 7001 9001 (Fin (2 / 100)) (Some [1, 2])))
           \<lparr>current_volume := Fin (52 / 100)\<rparr>,
        [Sent ''/1/busOutput'' (Fin 1), Sent ''/1/volume1'' (Fin (52 / 100)),
         Sent ''/1/volume2'' (Fin (52 / 100)), Sent ''/1/mastervolume'' (Fin (52 / 100))])"
    by code_simp
  have b: "current_volume (fst (init ''192.168.1.100'' 7001 9001 (Fin (2 / 100)) (Some [1, 2])))
       = Fin (1 / 2)"
    by (simp add: init_def select_output_bus_def)
  have c: "hd (snd (set_volume v s)) = Sent BUS_OUTPUT (Fin 1)"
    by (simp add: set_volume_def Let_def)
  have d: "length (snd (set_volume v s)) = length (volume_addresses s) + 2"
    by (simp add: set_volume_def Let_def)
  from a b c d show ?thesis
    by (intro conjI)
qed

section \<open>Mute\<close>

text \<open>
  C7. Two calls of \<^verbatim>\<open>toggle_mute\<close> in a row restore \<open>is_muted\<close> (and the whole state)
  and send two messages to the master-mute address, each with the flag as it is after
  its own flip, 1.0 for muted and 0.0 for unmuted, so the two payloads are opposite.
\<close>

theorem mute_involution:
  "fst (toggle_mute (fst (toggle_mute s))) = s
   \<and> is_muted (fst (toggle_mute (fst (toggle_mute s)))) = is_muted s
   \<and> snd (toggle_mute s)
       = [Sent MASTER_MUTE (if is_muted (fst (toggle_mute s)) then Fin 1 else Fin 0)]
   \<and> snd (toggle_mute s) @ snd (toggle_mute (fst (toggle_mute s)))
       = [Sent MASTER_MUTE (if is_muted s then Fin 0 else Fin 1),
          Sent MASTER_MUTE (if is_muted s then Fin 1 else Fin 0)]"
  by (simp add: toggle_mute_def Let_def)

section \<open>Construction\<close>

text \<open>
  C8, amended. Constructing the controller with an empty fader list is not an error of
  its own: in every environment the call does what the call without a fader list does.
  On a target that the socket layer accepts, a controller is returned in which the
  default faders 1 to 6 have taken the place of the empty list, after the client was
  created, the listener started and the bus-select message sent.
\<close>

theorem empty_faders_default:
  assumes "socket_layer i p = None"
  shows "TotalMixController socket_layer i p r d (Some []) = Inr (init i p r d None)
         \<and> faders (fst (init i p r d None)) = default_faders
         \<and> volume_addresses (fst (init i p r d None)) = map volume_address default_faders
         \<and> snd (init i p r d None)
             = [ClientCreated i p, ListenerStarted r, Sent BUS_OUTPUT (Fin 1)]
         \<and> TotalMixController sl i' p' r' d' (Some []) = TotalMixController sl i' p' r' d' None"
proof -
  have a: "TotalMixController socket_layer i p r d (Some []) = Inr (init i p r d None)"
    using assms by (simp add: TotalMixController_def init_empty_faders)
  have b: "faders (fst (init i p r d None)) = default_faders"
    and c: "volume_addresses (fst (init i p r d None)) = map volume_address default_faders"
    and e: "snd (init i p r d None)
              = [ClientCreated i p, ListenerStarted r, Sent BUS_OUTPUT (Fin 1)]"
    by (simp_all add: init_def select_output_bus_def)
  have f: "TotalMixController sl i' p' r' d' (Some []) = TotalMixController sl i' p' r' d' None"
    by (simp only: TotalMixController_def init_empty_faders)
  from a b c e f show ?thesis
    by (intro conjI)
qed

text \<open>An instance of C8 as amended: a socket layer that refuses the ports outside 0 to
  65535, and the port 7001.\<close>

theorem empty_faders_default_witness:
  "(\<lambda>h q. if 0 \<le> q \<and> q \<le> 65535 then None else Some OverflowError) ''192.168.1.100'' (7001::int)
     = None
   \<and> TotalMixController (\<lambda>h q. if 0 \<le> q \<and> q \<le> 65535 then None else Some OverflowError)
        ''192.168.1.100'' 7001 9001 (Fin (2 / 100)) (Some [])
       = Inr (init ''192.168.1.100'' 7001 9001 (Fin (2 / 100)) None)
   \<and> faders (fst (init ''192.168.1.100'' 7001 9001 (Fin (2 / 100)) None)) = [1, 2, 3, 4, 5, 6]"
proof -
  let ?sl = "\<lambda>(h::string) (q::int). if 0 \<le> q \<and> q \<le> 65535 then None else Some OverflowError"
  have h: "?sl ''192.168.1.100'' 7001 = None"
    by simp
  from empty_faders_default
         [of ?sl "''192.168.1.100''" 7001 9001 "Fin (2 / 100)"
             ?sl "''192.168.1.100''" 7001 9001 "Fin (2 / 100)", OF h]
  have "TotalMixController ?sl ''192.168.1.100'' 7001 9001 (Fin (2 / 100)) (Some [])
          = Inr (init ''192.168.1.100'' 7001 9001 (Fin (2 / 100)) None)"
    and "faders (fst (init ''192.168.1.100'' 7001 9001 (Fin (2 / 100)) None)) = default_faders"
    by blast+
  with h show ?thesis
    by (simp only: default_faders_def)
qed

text \<open>
  C8 as stated fails: the constructor called with the empty list returns a controller
  whose faders are 1 to 6, after creating the client and sending bus select.
\<close>

theorem empty_faders_counterexample:
  "faders (fst (init ''192.168.1.100'' 7001 9001 (Fin (2 / 100)) (Some []))) = [1, 2, 3, 4, 5, 6]
   \<and> snd (init ''192.168.1.100'' 7001 9001 (Fin (2 / 100)) (Some []))
       = [ClientCreated ''192.168.1.100'' 7001, ListenerStarted 9001,
          Sent ''/1/busOutput'' (Fin 1)]"
  by (simp add: init_def select_output_bus_def default_faders_def BUS_OUTPUT_def)

section \<open>Round trip of the codec\<close>

lemma unat_byte_of_char: "unat (byte_of_char c) = of_char c"
proof -
  have "(of_char c :: byte) = of_nat (of_char c)"
    by (simp add: of_nat_of_char)
  then have "unat (of_char c :: byte) = of_char c mod 256"
    by (simp only: unat_of_nat) simp
  then show ?thesis
    by (simp add: byte_of_char_def)
qed

lemma char_of_byte_of_char: "char_of_byte (byte_of_char c) = c"
  by (simp add: char_of_byte_def unat_byte_of_char)

lemma byte_of_char_zero: "byte_of_char c = 0 \<longleftrightarrow> c = CHR 0x00"
proof -
  have "byte_of_char c = 0 \<longleftrightarrow> unat (byte_of_char c) = 0"
    by (simp add: unat_eq_0)
  also have "\<dots> \<longleftrightarrow> (of_char c :: nat) = of_char (CHR 0x00)"
    by (simp add: unat_byte_of_char)
  also have "\<dots> \<longleftrightarrow> c = CHR 0x00"
    by (rule of_char_eq_iff)
  finally show ?thesis .
qed

lemma takeWhile_pad:
  assumes "valid_string s"
  shows "takeWhile (\<lambda>b. b \<noteq> 0) (pad_string s @ rest) = map byte_of_char s"
proof -
  have nz: "\<forall>b \<in> set (map byte_of_char s). b \<noteq> 0"
    using assms by (auto simp: valid_string_def byte_of_char_zero)
  have "4 - length s mod 4 = Suc (3 - length s mod 4)"
    by presburger
  then have "pad_string s @ rest
               = map byte_of_char s @ 0 # (replicate (3 - length s mod 4) 0 @ rest)"
    by (simp add: pad_string_def)
  then show ?thesis
    using nz by (simp add: takeWhile_tail)
qed

lemma read_string_pad:
  assumes "valid_string s"
  shows "read_string (pad_string s @ rest) = Some (s, rest)"
proof -
  define k where "k = 4 - length s mod 4"
  have k: "0 < k"
    by (simp add: k_def)
  have pad: "pad_string s = map byte_of_char s @ replicate k 0"
    by (simp add: pad_string_def k_def)
  have tw: "takeWhile (\<lambda>b. b \<noteq> 0) (pad_string s @ rest) = map byte_of_char s"
    by (rule takeWhile_pad [OF assms])
  have rt: "map char_of_byte (map byte_of_char s) = s"
    by (simp add: char_of_byte_of_char map_idI)
  have len: "length (pad_string s @ rest) = length s + k + length rest"
    by (simp add: pad)
  have dr: "drop (length s + k) (pad_string s @ rest) = rest"
    by (simp add: pad)
  show ?thesis
    unfolding read_string_def tw Let_def
    using k by (simp only: length_map len dr rt k_def [symmetric]) simp
qed

lemma be32_roundtrip:
  "word_of_be32 (ucast (drop_bit 24 w)) (ucast (drop_bit 16 w)) (ucast (drop_bit 8 w)) (ucast w)
     = w"
proof (rule bit_word_eqI)
  fix n :: nat
  assume "n < LENGTH(32)"
  then have n: "n < 32" by simp
  consider "n < 8" | "8 \<le> n" "n < 16" | "16 \<le> n" "n < 24" | "24 \<le> n"
    by linarith
  then show "bit (word_of_be32 (ucast (drop_bit 24 w)) (ucast (drop_bit 16 w))
                   (ucast (drop_bit 8 w)) (ucast w)) n = bit w n"
    using n by cases (auto simp: word_of_be32_def bit_simps)
qed

lemma decode_args_encode:
  "list_all valid_arg args \<Longrightarrow>
   decode_args (map type_tag args) (concat (map encode_arg args) @ rest) = Some args"
proof (induction args)
  case Nil
  then show ?case by simp
next
  case (Cons a args)
  then have IH:
    "decode_args (map type_tag args) (concat (map encode_arg args) @ rest) = Some args"
    by simp
  show ?case
  proof (cases a)
    case (OscFloat w)
    then show ?thesis using IH by (simp add: be32_def be32_roundtrip)
  next
    case (OscInt w)
    then show ?thesis using IH by (simp add: be32_def be32_roundtrip)
  next
    case (OscStr s)
    with Cons.prems have "valid_string s" by simp
    then show ?thesis using IH OscStr by (simp add: read_string_pad)
  qed
qed

text \<open>
  C9. For every message whose address and string arguments hold no NUL character, with
  arguments that are 32-bit floats, 32-bit integers or strings, decoding the encoded
  message gives the message back, address and arguments.
\<close>

theorem codec_roundtrip:
  assumes "valid_message m"
  shows "decode (encode m) = Inr m"
proof -
  from assms have a: "valid_string (address m)" and b: "list_all valid_arg (arguments m)"
    by (simp_all add: valid_message_def)
  have "CHR 0x00 \<noteq> type_tag x" for x
    by (cases x) simp_all
  then have c: "valid_string (CHR '','' # map type_tag (arguments m))"
    by (auto simp: valid_string_def)
  show ?thesis
    unfolding decode_def encode_def
    using decode_args_encode [OF b, of "[]"]
    by (simp add: read_string_pad [OF a] read_string_pad [OF c])
qed

text \<open>An instance of C9: the address \<^verbatim>\<open>/1/mainDim\<close> with the float 1.0, whose bit
  pattern is \<open>0x3F800000\<close>.\<close>

theorem codec_roundtrip_witness:
  "valid_message \<lparr>address = ''/1/mainDim'', arguments = [OscFloat 0x3F800000]\<rparr>
   \<and> decode (encode \<lparr>address = ''/1/mainDim'', arguments = [OscFloat 0x3F800000]\<rparr>)
       = Inr \<lparr>address = ''/1/mainDim'', arguments = [OscFloat 0x3F800000]\<rparr>"
proof -
  have h: "valid_message \<lparr>address = ''/1/mainDim'', arguments = [OscFloat 0x3F800000]\<rparr>"
    by (simp add: valid_message_def valid_string_def)
  from h codec_roundtrip [OF h] show ?thesis
    by (rule conjI)
qed

end
